theory Spec2Isabelle
  imports Complex_Main "HOL-Library.Sublist"
begin

section \<open>The Finder API of core/finder/finder.py\<close>

text \<open>
  The module combines one call of a matcher (template match, blocking wait, blocking
  vanish, text search) with an optional highlight and with error translation.  The
  functions below follow \<^verbatim>\<open>finder.py\<close> line by line.  Exceptions are values of
  type \<open>error\<close>; everything a function does to the outside (a call of a matcher, a
  drawing call, a sleep) is recorded, in order, in a list of events.
\<close>

subsection \<open>Data\<close>

text \<open>
  Modelled from the spec: the classes \<^verbatim>\<open>Location\<close>, \<^verbatim>\<open>Rectangle\<close> and
  \<^verbatim>\<open>Pattern\<close> (core/helpers/location.py, core/helpers/rectangle.py and
  core/finder/pattern.py are not part of the sources at hand).  A Location is a 2D point,
  a Rectangle an axis-aligned box (x, y, width, height), a Pattern an image reference
  with a similarity threshold and a size.  \<open>filename\<close> is what
  \<^verbatim>\<open>get_filename()\<close> returns, \<open>get_size\<close> what \<^verbatim>\<open>get_size()\<close> returns.
\<close>

datatype Location = Location (loc_x: int) (loc_y: int)

datatype Rectangle =
  Rectangle (rect_x: int) (rect_y: int) (rect_width: int) (rect_height: int)

record Pattern =
  filename :: string
  similarity :: real
  get_size :: "int \<times> int"

type_synonym color = string

datatype HighlightRectangle = HighlightRectangle int int int int color

datatype MatchTemplateType = SINGLE | MULTIPLE

text \<open>
  Python is dynamically typed: the argument \<^verbatim>\<open>ps\<close> of \<^verbatim>\<open>find\<close>,
  \<^verbatim>\<open>verify\<close> and \<^verbatim>\<open>exists\<close> is any object.  The two \<^verbatim>\<open>isinstance\<close>
  tests of the module tell a Pattern and a \<^verbatim>\<open>str\<close> from everything else.
\<close>

datatype pyval =
    PatternV Pattern
  | StrV string
  | NoneV
  | IntV int
  | FloatV real
  | LocationV Location

fun is_Pattern :: "pyval \<Rightarrow> bool" where
  "is_Pattern (PatternV p) = True"
| "is_Pattern v = False"

fun is_str :: "pyval \<Rightarrow> bool" where
  "is_str (StrV s) = True"
| "is_str v = False"

text \<open>
  The argument \<^verbatim>\<open>location\<close> of \<^verbatim>\<open>highlight\<close>: omitted (\<^verbatim>\<open>None\<close>), the list of
  Locations that \<^verbatim>\<open>find\<close> and \<^verbatim>\<open>find_all\<close> pass, or the single Location that
  \<^verbatim>\<open>verify\<close> passes.
\<close>

datatype location_arg =
    NoLocation
  | OneLocation Location
  | Locations "Location list"

datatype error =
    FindError string
  | ValueError string
  | TypeError string
  | OverflowError string

fun is_FindError :: "error \<Rightarrow> bool" where
  "is_FindError (FindError m) = True"
| "is_FindError e = False"

text \<open>
  The number of seconds that \<^verbatim>\<open>highlight\<close> hands to \<^verbatim>\<open>time.sleep\<close>: a Python
  \<^verbatim>\<open>int\<close>, or a \<^verbatim>\<open>float\<close>, which is a number, an infinity or NaN.  A finite
  float is taken as the real number it stands for; the rounding of float arithmetic is
  not part of the model.
\<close>

datatype pynum =
    IntN int
  | FloatN real
  | PosInf
  | NegInf
  | NaN

datatype event =
    MatchTemplateCall Pattern "Rectangle option" MatchTemplateType
  | ImageFindCall Pattern real "Rectangle option"
  | ImageVanishCall Pattern real "Rectangle option"
  | TextSearchCall string bool "Rectangle option"
  | NewScreenHighlight
  | DrawRectangle HighlightRectangle
  | CreateText int int string color
  | CreateRectangleBBox color color
  | TagLower
  | Render pynum
  | Sleep pynum

text \<open>
  The result of running a function: the value it returns or the exception it raises,
  and the events up to that point.
\<close>

type_synonym 'a run = "(error + 'a) \<times> event list"

definition ret :: "'a \<Rightarrow> 'a run" where
  "ret v = (Inr v, [])"

definition raise :: "error \<Rightarrow> 'a run" where
  "raise e = (Inl e, [])"

definition emit :: "event list \<Rightarrow> unit run" where
  "emit evs = (Inr (), evs)"

definition and_then :: "'a run \<Rightarrow> ('a \<Rightarrow> 'b run) \<Rightarrow> 'b run" where
  "and_then m f =
     (case m of
        (Inl e, tr) \<Rightarrow> (Inl e, tr)
      | (Inr v, tr) \<Rightarrow> (case f v of (res, tr') \<Rightarrow> (res, tr @ tr')))"

subsection \<open>The collaborators\<close>

text \<open>
  \<^verbatim>\<open>Settings\<close> (core/settings.py), the process-wide configuration read when an
  argument is omitted.
\<close>

record Settings =
  auto_wait_timeout :: real
  highlight_color :: color
  highlight_duration :: pynum

text \<open>
  The functions the module imports and does not define are parameters: what
  \<^verbatim>\<open>match_template\<close>, \<^verbatim>\<open>image_find\<close>, \<^verbatim>\<open>image_vanish\<close> and
  \<^verbatim>\<open>TextSearch().text_search\<close> answer for given arguments, the flag
  \<^verbatim>\<open>parse_args().highlight\<close>, the settings and the value of \<^verbatim>\<open>Color.WHITE\<close>.
  Each Finder operation calls a matcher at most once, so one answer per argument tuple
  describes the screen as that call sees it.  A matcher returns normally; whether it
  found something is in its result (\<open>None\<close> is Python's \<^verbatim>\<open>None\<close>).
\<close>

record env =
  match_template :: "Pattern \<Rightarrow> Rectangle option \<Rightarrow> MatchTemplateType \<Rightarrow> Location list"
  image_find :: "Pattern \<Rightarrow> real \<Rightarrow> Rectangle option \<Rightarrow> Location option"
  image_vanish :: "Pattern \<Rightarrow> real \<Rightarrow> Rectangle option \<Rightarrow> unit option"
  text_search :: "string \<Rightarrow> bool \<Rightarrow> Rectangle option \<Rightarrow> Location option"
  args_highlight :: bool
  settings :: Settings
  color_white :: color

definition call_match_template ::
  "env \<Rightarrow> Pattern \<Rightarrow> Rectangle option \<Rightarrow> MatchTemplateType \<Rightarrow> Location list run" where
  "call_match_template e p region mt =
     (Inr (match_template e p region mt), [MatchTemplateCall p region mt])"

definition call_image_find ::
  "env \<Rightarrow> Pattern \<Rightarrow> real \<Rightarrow> Rectangle option \<Rightarrow> Location option run" where
  "call_image_find e p timeout region =
     (Inr (image_find e p timeout region), [ImageFindCall p timeout region])"

definition call_image_vanish ::
  "env \<Rightarrow> Pattern \<Rightarrow> real \<Rightarrow> Rectangle option \<Rightarrow> unit option run" where
  "call_image_vanish e p timeout region =
     (Inr (image_vanish e p timeout region), [ImageVanishCall p timeout region])"

definition call_text_search ::
  "env \<Rightarrow> string \<Rightarrow> bool \<Rightarrow> Rectangle option \<Rightarrow> Location option run" where
  "call_text_search e s wait region =
     (Inr (text_search e s wait region), [TextSearchCall s wait region])"

text \<open>
  \<^verbatim>\<open>time.sleep\<close> of the standard library (CPython 3.11).  It first converts the
  length to nanoseconds, rounding away from zero, and raises OverflowError when the
  result does not fit a signed 64-bit integer; an infinity does not fit, and NaN is a
  ValueError.  Only then it raises ValueError on a negative length.  The message of the
  OverflowError is a different one for an \<^verbatim>\<open>int\<close> and for a \<^verbatim>\<open>float\<close>.
\<close>

fun sleep :: "pynum \<Rightarrow> unit run" where
  "sleep NaN = raise (ValueError ''Invalid value NaN (not a number)'')"
| "sleep PosInf = raise (OverflowError ''timestamp out of range for platform time_t'')"
| "sleep NegInf = raise (OverflowError ''timestamp out of range for platform time_t'')"
| "sleep (FloatN d) =
     (if d * 1000000000 < - 9223372036854775808 \<or> 9223372036854775807 < d * 1000000000
      then raise (OverflowError ''timestamp out of range for platform time_t'')
      else if d < 0 then raise (ValueError ''sleep length must be non-negative'')
      else emit [Sleep (FloatN d)])"
| "sleep (IntN n) =
     (if n * 1000000000 < - 9223372036854775808 \<or> 9223372036854775807 < n * 1000000000
      then raise (OverflowError ''timestamp too large to convert to C _PyTime_t'')
      else if n < 0 then raise (ValueError ''sleep length must be non-negative'')
      else emit [Sleep (IntN n)])"

text \<open>
  The lengths \<^verbatim>\<open>time.sleep\<close> accepts: not negative, and at most
  \<open>2\<^sup>6\<^sup>3 - 1\<close> nanoseconds (about 9.2 billion seconds).
\<close>

fun valid_duration :: "pynum \<Rightarrow> bool" where
  "valid_duration (IntN n) = (0 \<le> n \<and> n * 1000000000 \<le> 9223372036854775807)"
| "valid_duration (FloatN d) = (0 \<le> d \<and> d * 1000000000 \<le> 9223372036854775807)"
| "valid_duration v = False"

text \<open>
  Modelled from the spec: iteration over a single Location (the class is not part of the
  sources at hand).  A Location is a plain point (x, y) with no other state, so
  \<^verbatim>\<open>for loc in location\<close> raises TypeError on it, as it does on \<^verbatim>\<open>None\<close>;
  a list is iterated in order.
\<close>

fun iterate :: "location_arg \<Rightarrow> Location list run" where
  "iterate (Locations ls) = ret ls"
| "iterate NoLocation = raise (TypeError (CHR 39 # ''NoneType'' @ CHR 39 # '' object is not iterable''))"
| "iterate (OneLocation l) = raise (TypeError (CHR 39 # ''Location'' @ CHR 39 # '' object is not iterable''))"

subsection \<open>highlight\<close>

definition highlight ::
  "env \<Rightarrow> Rectangle option \<Rightarrow> pynum option \<Rightarrow> color option \<Rightarrow> Pattern option
     \<Rightarrow> location_arg \<Rightarrow> unit run" where
  "highlight e region seconds color pattern location =
     (let color = (case color of None \<Rightarrow> highlight_color (settings e) | Some c \<Rightarrow> c);
          seconds = (case seconds of None \<Rightarrow> highlight_duration (settings e) | Some s \<Rightarrow> s)
      in
      and_then (emit [NewScreenHighlight]) (\<lambda>_.
      and_then
        (case region of
           None \<Rightarrow> ret ()
         | Some rg \<Rightarrow>
             emit [DrawRectangle
                     (HighlightRectangle (rect_x rg) (rect_y rg) (rect_width rg)
                        (rect_height rg) color),
                   CreateText (rect_x rg) (rect_y rg) ''Region'' (color_white e),
                   CreateRectangleBBox color color,
                   TagLower]) (\<lambda>_.
      and_then
        (case pattern of
           None \<Rightarrow> ret ()
         | Some p \<Rightarrow>
             (case get_size p of
                (width, height) \<Rightarrow>
                  and_then (iterate location) (\<lambda>ls.
                    emit (map (\<lambda>loc. DrawRectangle
                                 (HighlightRectangle (loc_x loc) (loc_y loc) width height color))
                            ls)))) (\<lambda>_.
      and_then (emit [Render seconds]) (\<lambda>_.
      sleep seconds)))))"

subsection \<open>find and find_all\<close>

text \<open>
  \<^verbatim>\<open>find\<close> of the source (the name \<open>find\<close> is taken by the list library).  A target
  that is not a Pattern falls through the \<^verbatim>\<open>isinstance\<close> test to the end of the
  function, which returns \<^verbatim>\<open>None\<close>.
\<close>

definition find_one :: "env \<Rightarrow> pyval \<Rightarrow> Rectangle option \<Rightarrow> Location option run" where
  "find_one e ps region =
     (case ps of
        PatternV p \<Rightarrow>
          and_then (call_match_template e p region SINGLE) (\<lambda>image_found.
            if length image_found > 0 then
              and_then
                (if args_highlight e
                 then highlight e region None None (Some p) (Locations image_found)
                 else ret ()) (\<lambda>_.
              ret (Some (image_found ! 0)))
            else raise (FindError (''Unable to find image '' @ filename p)))
      | _ \<Rightarrow> ret None)"

text \<open>
  \<^verbatim>\<open>find_all\<close> hands its argument to \<^verbatim>\<open>match_template\<close> without a type test;
  it is modelled on Patterns, the argument the matcher is declared for.
\<close>

definition find_all :: "env \<Rightarrow> Pattern \<Rightarrow> Rectangle option \<Rightarrow> Location list run" where
  "find_all e pattern region =
     and_then (call_match_template e pattern region MULTIPLE) (\<lambda>images_found.
       if length images_found > 0 then
         and_then
           (if args_highlight e
            then highlight e region None None (Some pattern) (Locations images_found)
            else ret ()) (\<lambda>_.
         ret images_found)
       else raise (FindError (''Unable to find image '' @ filename pattern)))"

subsection \<open>verify, exists and wait_vanish\<close>

definition verify :: "env \<Rightarrow> pyval \<Rightarrow> real option \<Rightarrow> Rectangle option \<Rightarrow> bool run" where
  "verify e ps timeout region =
     (case ps of
        PatternV p \<Rightarrow>
          (let timeout = (case timeout of None \<Rightarrow> auto_wait_timeout (settings e) | Some t \<Rightarrow> t)
           in and_then (call_image_find e p timeout region) (\<lambda>image_found.
                case image_found of
                  Some loc \<Rightarrow>
                    and_then
                      (if args_highlight e
                       then highlight e region None None (Some p) (OneLocation loc)
                       else ret ()) (\<lambda>_.
                    ret True)
                | None \<Rightarrow> raise (FindError (''Unable to find image '' @ filename p))))
      | StrV s \<Rightarrow>
          and_then (call_text_search e s True region) (\<lambda>a_match.
            case a_match of
              Some m \<Rightarrow> ret True
            | None \<Rightarrow> raise (FindError (''Unable to find text '' @ s)))
      | _ \<Rightarrow> raise (ValueError ''Invalid input''))"

text \<open>\<^verbatim>\<open>try: verify(...); return True; except FindError: return False\<close>.\<close>

definition exists :: "env \<Rightarrow> pyval \<Rightarrow> real option \<Rightarrow> Rectangle option \<Rightarrow> bool run" where
  "exists e ps timeout region =
     (let timeout = (case timeout of None \<Rightarrow> auto_wait_timeout (settings e) | Some t \<Rightarrow> t)
      in case verify e ps (Some timeout) region of
           (Inr v, tr) \<Rightarrow> (Inr True, tr)
         | (Inl err, tr) \<Rightarrow> if is_FindError err then (Inr False, tr) else (Inl err, tr))"

definition wait_vanish :: "env \<Rightarrow> Pattern \<Rightarrow> real option \<Rightarrow> Rectangle option \<Rightarrow> bool run" where
  "wait_vanish e pattern timeout region =
     (let timeout = (case timeout of None \<Rightarrow> auto_wait_timeout (settings e) | Some t \<Rightarrow> t)
      in and_then (call_image_vanish e pattern timeout region) (\<lambda>image_found.
           case image_found of
             Some v \<Rightarrow> ret True
           | None \<Rightarrow> raise (FindError (filename pattern @ '' did not vanish''))))"


subsection \<open>Concrete inputs\<close>

definition button :: Pattern where
  "button = \<lparr>filename = ''button.png'', similarity = 9 / 10, get_size = (40, 20)\<rparr>"

definition default_settings :: Settings where
  "default_settings =
     \<lparr>auto_wait_timeout = 3, highlight_color = ''red'', highlight_duration = IntN 2\<rparr>"

text \<open>A screen on which nothing is found and nothing vanishes.\<close>

definition empty_env :: env where
  "empty_env =
     \<lparr>match_template = (\<lambda>p region mt. []),
      image_find = (\<lambda>p timeout region. None),
      image_vanish = (\<lambda>p timeout region. None),
      text_search = (\<lambda>s wait region. None),
      args_highlight = False,
      settings = default_settings,
      color_white = ''white''\<rparr>"

text \<open>
  A screen with two places that match the button, at (200, 50) and at (10, 10); the
  matcher lists them in this order in both modes.  Highlighting is on.
\<close>

definition two_buttons_env :: env where
  "two_buttons_env =
     \<lparr>match_template = (\<lambda>p region mt. [Location 200 50, Location 10 10]),
      image_find = (\<lambda>p timeout region. Some (Location 200 50)),
      image_vanish = (\<lambda>p timeout region. None),
      text_search = (\<lambda>s wait region. None),
      args_highlight = True,
      settings = default_settings,
      color_white = ''white''\<rparr>"

section \<open>Properties\<close>

subsection \<open>Sequencing\<close>

lemma and_then_Inr [simp]: "and_then (Inr v, tr) f = (fst (f v), tr @ snd (f v))"
  by (simp add: and_then_def split: prod.splits)

lemma and_then_Inl [simp]: "and_then (Inl err, tr) f = (Inl err, tr)"
  by (simp add: and_then_def)

lemma and_then_ret [simp]: "and_then (ret v) f = f v"
  by (simp add: ret_def)

lemma and_then_emit [simp]: "and_then (emit evs) f = (fst (f ()), evs @ snd (f ()))"
  by (simp add: emit_def)

lemma and_then_raise [simp]: "and_then (raise err) f = raise err"
  by (simp add: raise_def)

lemma fst_and_then:
  "fst (and_then m f) = (case fst m of Inl err \<Rightarrow> Inl err | Inr v \<Rightarrow> fst (f v))"
  by (simp add: and_then_def split: prod.splits sum.splits)

lemma sleep_returns: "fst (sleep s) = Inr () \<longleftrightarrow> valid_duration s"
  by (cases s) (auto simp add: raise_def emit_def)

lemmas call_defs =
  call_match_template_def call_image_find_def call_image_vanish_def call_text_search_def

subsection \<open>What highlight returns\<close>

text \<open>
  With a list of Locations, or without a pattern, the only statement of
  \<^verbatim>\<open>highlight\<close> that can raise is the final \<^verbatim>\<open>time.sleep\<close>.
\<close>

lemma highlight_Locations:
  "fst (highlight e region seconds color (Some p) (Locations ls)) =
     fst (sleep (case seconds of None \<Rightarrow> highlight_duration (settings e) | Some s \<Rightarrow> s))"
  by (simp add: highlight_def Let_def split: option.splits prod.splits)


subsection \<open>Messages\<close>

lemma names_image: "sublist (filename p) (''Unable to find image '' @ filename p)"
  by (rule sublist_append_leftI)

lemma names_vanish: "sublist (filename p) (filename p @ '' did not vanish'')"
  by (rule sublist_append_rightI)

subsection \<open>verify and exists\<close>

lemma verify_default_timeout:
  "verify e ps None region = verify e ps (Some (auto_wait_timeout (settings e))) region"
  by (cases ps) (simp_all add: verify_def)

text \<open>
  \<^verbatim>\<open>exists\<close> hands \<^verbatim>\<open>verify\<close> the timeout with the default filled in; \<^verbatim>\<open>verify\<close>
  would fill in the same default, so \<^verbatim>\<open>exists\<close> is \<^verbatim>\<open>verify\<close> on the same
  arguments with FindError caught.
\<close>

lemma exists_verify:
  "exists e ps timeout region =
     (case verify e ps timeout region of
        (Inr v, tr) \<Rightarrow> (Inr True, tr)
      | (Inl err, tr) \<Rightarrow> if is_FindError err then (Inr False, tr) else (Inl err, tr))"
proof (cases timeout)
  case None
  then show ?thesis by (simp add: exists_def verify_default_timeout)
next
  case (Some t)
  then show ?thesis by (simp add: exists_def)
qed

subsection \<open>find and find_all when they return\<close>

text \<open>
  Both call \<^verbatim>\<open>highlight\<close> with the default duration, and whether that call raises
  does not depend on the Locations it is given.
\<close>

lemma find_all_returns:
  "fst (find_all e p region) = Inr ms \<Longrightarrow>
   ms = match_template e p region MULTIPLE \<and> ms \<noteq> [] \<and>
   (args_highlight e \<longrightarrow> valid_duration (highlight_duration (settings e)))"
  by (auto simp add: find_all_def call_defs raise_def ret_def fst_and_then
      highlight_Locations sleep_returns split: if_splits sum.splits)

lemma find_one_returns:
  "match_template e p region SINGLE \<noteq> [] \<Longrightarrow>
   args_highlight e \<longrightarrow> valid_duration (highlight_duration (settings e)) \<Longrightarrow>
   fst (find_one e (PatternV p) region) = Inr (Some (hd (match_template e p region SINGLE)))"
  by (auto simp add: find_one_def call_defs ret_def fst_and_then highlight_Locations
      sleep_returns [symmetric] hd_conv_nth)

section \<open>The claims\<close>

text \<open>
  C1.  For every Pattern whose template match yields zero locations, \<^verbatim>\<open>find\<close> raises
  FindError and \<^verbatim>\<open>find_all\<close> raises FindError, and in both cases the message contains
  the pattern's filename.  (\<^verbatim>\<open>find\<close> matches in mode SINGLE, \<^verbatim>\<open>find_all\<close> in mode
  MULTIPLE.)
\<close>

theorem no_match_raises_FindError:
  "(match_template e p region SINGLE = [] \<longrightarrow>
      fst (find_one e (PatternV p) region)
        = Inl (FindError (''Unable to find image '' @ filename p))) \<and>
   (match_template e p region MULTIPLE = [] \<longrightarrow>
      fst (find_all e p region)
        = Inl (FindError (''Unable to find image '' @ filename p))) \<and>
   sublist (filename p) (''Unable to find image '' @ filename p)"
  using names_image [of p]
  by (simp add: find_one_def find_all_def call_defs raise_def del: append.simps)

theorem no_match_raises_FindError_witness:
  "match_template empty_env button None SINGLE = [] \<and>
   match_template empty_env button None MULTIPLE = [] \<and>
   fst (find_one empty_env (PatternV button) None)
     = Inl (FindError ''Unable to find image button.png'') \<and>
   fst (find_all empty_env button None)
     = Inl (FindError ''Unable to find image button.png'')"
  using no_match_raises_FindError [of empty_env button None]
  by (simp add: empty_env_def button_def)

text \<open>
  C2.  For every target, timeout and region, \<^verbatim>\<open>exists\<close> returns false exactly when
  \<^verbatim>\<open>verify\<close> on the same arguments raises FindError, returns true exactly when
  \<^verbatim>\<open>verify\<close> returns normally, and lets every other error through unchanged.  Both
  make the same calls.
\<close>

theorem exists_catches_FindError_only:
  "(fst (exists e ps timeout region) = Inr False
      \<longleftrightarrow> (\<exists>m. fst (verify e ps timeout region) = Inl (FindError m))) \<and>
   (fst (exists e ps timeout region) = Inr True
      \<longleftrightarrow> (\<exists>v. fst (verify e ps timeout region) = Inr v)) \<and>
   (\<forall>err. \<not> is_FindError err \<longrightarrow> fst (verify e ps timeout region) = Inl err
      \<longrightarrow> fst (exists e ps timeout region) = Inl err) \<and>
   snd (exists e ps timeout region) = snd (verify e ps timeout region)"
proof -
  obtain res tr where v: "verify e ps timeout region = (res, tr)"
    by (cases "verify e ps timeout region")
  show ?thesis
  proof (cases res)
    case (Inl err)
    with v show ?thesis
      by (cases err) (simp_all add: exists_verify)
  next
    case (Inr b)
    with v show ?thesis
      by (simp add: exists_verify)
  qed
qed

theorem exists_catches_FindError_only_witness:
  "\<not> is_FindError (ValueError ''Invalid input'') \<and>
   fst (verify empty_env (IntV 3) (Some 1) None) = Inl (ValueError ''Invalid input'') \<and>
   fst (exists empty_env (IntV 3) (Some 1) None) = Inl (ValueError ''Invalid input'')"
proof -
  have a: "\<not> is_FindError (ValueError ''Invalid input'')" by simp
  have b: "fst (verify empty_env (IntV 3) (Some 1) None) = Inl (ValueError ''Invalid input'')"
    by (simp add: verify_def raise_def)
  from exists_catches_FindError_only [of empty_env "IntV 3" "Some 1" None] a b
  have "fst (exists empty_env (IntV 3) (Some 1) None) = Inl (ValueError ''Invalid input'')"
    by blast
  with a b show ?thesis by simp
qed

text \<open>
  C3.  For every Pattern with at least one match, \<^verbatim>\<open>find\<close> returns the first
  element of the sequence that \<^verbatim>\<open>find_all\<close> returns, under the same matcher
  ordering: the match in mode SINGLE, which \<^verbatim>\<open>find\<close> asks for, is not empty and
  starts with the same Location as the match in mode MULTIPLE, which \<^verbatim>\<open>find_all\<close>
  asks for.
\<close>

theorem find_returns_first_of_find_all:
  assumes "match_template e p region SINGLE \<noteq> []"
    and "hd (match_template e p region SINGLE) = hd (match_template e p region MULTIPLE)"
    and "fst (find_all e p region) = Inr ms"
  shows "ms \<noteq> [] \<and> fst (find_one e (PatternV p) region) = Inr (Some (hd ms))"
proof -
  from assms(3) have ms: "ms = match_template e p region MULTIPLE"
    and ne: "ms \<noteq> []"
    and hl: "args_highlight e \<longrightarrow> valid_duration (highlight_duration (settings e))"
    by (simp_all add: find_all_returns)
  from assms(1) hl
  have "fst (find_one e (PatternV p) region)
          = Inr (Some (hd (match_template e p region SINGLE)))"
    by (rule find_one_returns)
  with assms(2) ms ne show ?thesis by simp
qed

theorem find_returns_first_of_find_all_witness:
  "match_template two_buttons_env button None SINGLE \<noteq> [] \<and>
   hd (match_template two_buttons_env button None SINGLE)
     = hd (match_template two_buttons_env button None MULTIPLE) \<and>
   fst (find_all two_buttons_env button None) = Inr [Location 200 50, Location 10 10] \<and>
   fst (find_one two_buttons_env (PatternV button) None) = Inr (Some (Location 200 50))"
proof -
  have a: "match_template two_buttons_env button None SINGLE \<noteq> []"
    by (simp add: two_buttons_env_def)
  have b: "hd (match_template two_buttons_env button None SINGLE)
             = hd (match_template two_buttons_env button None MULTIPLE)"
    by (simp add: two_buttons_env_def)
  have c: "fst (find_all two_buttons_env button None)
             = Inr [Location 200 50, Location 10 10]"
    by (simp add: find_all_def call_defs ret_def fst_and_then highlight_Locations
        two_buttons_env_def default_settings_def emit_def)
  from find_returns_first_of_find_all [OF a b c]
  have "fst (find_one two_buttons_env (PatternV button) None)
          = Inr (Some (hd [Location 200 50, Location 10 10]))"
    by (rule conjunct2)
  then have "fst (find_one two_buttons_env (PatternV button) None)
          = Inr (Some (Location 200 50))"
    by simp
  with a b c show ?thesis by (intro conjI)
qed

text \<open>
  C4.  For every argument that is neither a Pattern nor a string, \<^verbatim>\<open>verify\<close> raises
  ValueError, before any call of a matcher, and does not raise FindError, whatever the
  timeout and the region.
\<close>

theorem verify_invalid_argument:
  "\<not> is_Pattern ps \<Longrightarrow> \<not> is_str ps \<Longrightarrow>
   verify e ps timeout region = (Inl (ValueError ''Invalid input''), []) \<and>
   (\<forall>m. fst (verify e ps timeout region) \<noteq> Inl (FindError m))"
  by (cases ps) (simp_all add: verify_def raise_def)

theorem verify_invalid_argument_witness:
  "\<not> is_Pattern (IntV 3) \<and> \<not> is_str (IntV 3) \<and>
   verify two_buttons_env (IntV 3) (Some 5) (Some (Rectangle 0 0 800 600))
     = (Inl (ValueError ''Invalid input''), [])"
  using verify_invalid_argument
    [of "IntV 3" two_buttons_env "Some 5" "Some (Rectangle 0 0 800 600)"]
  by simp

text \<open>
  C5.  For every Pattern, timeout and region, \<^verbatim>\<open>wait_vanish\<close> returns true exactly
  when \<^verbatim>\<open>image_vanish\<close>, called with the timeout (the default one when omitted),
  reports that the pattern vanished; otherwise it raises FindError with a message that
  contains the pattern's filename.
\<close>

theorem wait_vanish_result:
  "(fst (wait_vanish e p timeout region) = Inr True
      \<longleftrightarrow> image_vanish e p
            (case timeout of None \<Rightarrow> auto_wait_timeout (settings e) | Some t \<Rightarrow> t) region
          \<noteq> None) \<and>
   (image_vanish e p
        (case timeout of None \<Rightarrow> auto_wait_timeout (settings e) | Some t \<Rightarrow> t) region = None
      \<longrightarrow> fst (wait_vanish e p timeout region)
            = Inl (FindError (filename p @ '' did not vanish''))) \<and>
   sublist (filename p) (filename p @ '' did not vanish'')"
  using names_vanish [of p]
  by (cases "image_vanish e p
        (case timeout of None \<Rightarrow> auto_wait_timeout (settings e) | Some t \<Rightarrow> t) region")
     (simp_all add: wait_vanish_def Let_def call_defs raise_def ret_def del: append.simps)

theorem wait_vanish_result_witness:
  "image_vanish empty_env button 5 None = None \<and>
   fst (wait_vanish empty_env button (Some 5) None)
     = Inl (FindError ''button.png did not vanish'')"
  using wait_vanish_result [of empty_env button "Some 5" None]
  by (simp add: empty_env_def button_def)

text \<open>
  C6.  When the timeout is omitted, \<^verbatim>\<open>verify\<close> on a Pattern, \<^verbatim>\<open>exists\<close> and
  \<^verbatim>\<open>wait_vanish\<close> behave as with \<^verbatim>\<open>Settings.auto_wait_timeout\<close> given, and the
  blocking matcher call they start with carries that timeout.
\<close>

theorem omitted_timeout_is_default:
  "verify e (PatternV p) None region
     = verify e (PatternV p) (Some (auto_wait_timeout (settings e))) region \<and>
   (\<exists>tr. snd (verify e (PatternV p) None region)
            = ImageFindCall p (auto_wait_timeout (settings e)) region # tr) \<and>
   exists e ps None region = exists e ps (Some (auto_wait_timeout (settings e))) region \<and>
   (\<exists>tr. snd (exists e (PatternV p) None region)
            = ImageFindCall p (auto_wait_timeout (settings e)) region # tr) \<and>
   wait_vanish e p None region
     = wait_vanish e p (Some (auto_wait_timeout (settings e))) region \<and>
   snd (wait_vanish e p None region)
     = [ImageVanishCall p (auto_wait_timeout (settings e)) region]"
proof -
  have v: "\<exists>tr. snd (verify e (PatternV p) None region)
            = ImageFindCall p (auto_wait_timeout (settings e)) region # tr"
    by (simp add: verify_def Let_def call_defs split: option.splits)
  have x: "snd (exists e (PatternV p) None region) = snd (verify e (PatternV p) None region)"
    by (simp add: exists_verify split: prod.splits sum.splits)
  have w: "snd (wait_vanish e p None region)
     = [ImageVanishCall p (auto_wait_timeout (settings e)) region]"
    by (simp add: wait_vanish_def Let_def call_defs raise_def ret_def split: option.splits)
  show ?thesis
    using v x w by (simp add: verify_default_timeout exists_def wait_vanish_def)
qed

text \<open>
  C7.  \<^verbatim>\<open>highlight\<close> with the color omitted behaves as with
  \<^verbatim>\<open>Settings.highlight_color\<close> given and draws the region in that color; with the
  seconds omitted it behaves as with \<^verbatim>\<open>Settings.highlight_duration\<close> given and
  renders for that duration.
\<close>

theorem highlight_defaults:
  "highlight e region seconds None pattern location
     = highlight e region seconds (Some (highlight_color (settings e))) pattern location \<and>
   highlight e region None color pattern location
     = highlight e region (Some (highlight_duration (settings e))) color pattern location \<and>
   DrawRectangle (HighlightRectangle (rect_x rg) (rect_y rg) (rect_width rg) (rect_height rg)
        (highlight_color (settings e)))
     \<in> set (snd (highlight e (Some rg) seconds None pattern location)) \<and>
   Render (highlight_duration (settings e))
     \<in> set (snd (highlight e region None color None location))"
  by (simp add: highlight_def Let_def split: option.splits prod.splits)




text \<open>
  C9.  For every string and every region, \<^verbatim>\<open>find\<close> returns \<^verbatim>\<open>None\<close>: it raises
  nothing and calls nothing.
\<close>

theorem find_string_returns_None: "find_one e (StrV s) region = (Inr None, [])"
  by (simp add: find_one_def ret_def)

text \<open>
  C10.  For every string, region and two timeouts, \<^verbatim>\<open>verify\<close> gives the same result
  and makes the same calls: the text branch does not read the timeout.
\<close>

theorem verify_string_ignores_timeout:
  "verify e (StrV s) t1 region = verify e (StrV s) t2 region"
  by (simp add: verify_def)

end
